theory Spec2Isabelle
  imports Main "HOL-Library.Word" "HOL-Library.Log_Nat"
begin

section \<open>Machine arithmetic of the benchmark\<close>

text \<open>
  The benchmark computes with three machine types: \<^verbatim>\<open>unsigned\<close> counters (32 bits),
  \<^verbatim>\<open>unsigned short\<close> recursion depths (16 bits) and \<^verbatim>\<open>double\<close> durations. The integer
  types are words, so that \<^verbatim>\<open>++\<close> and \<^verbatim>\<open>--\<close> wrap around. A \<^verbatim>\<open>double\<close> is an IEEE 754
  binary64 value (\<^verbatim>\<open>std::numeric_limits<double>::is_iec559\<close>): a sign bit with an exact
  rational magnitude, an infinity with its sign, or a NaN. Every arithmetic operation
  computes the exact rational result and rounds it to the nearest binary64 value, ties to
  even, which is the rounding mode a C++ program starts in.
\<close>

type_synonym unsigned = "32 word"
type_synonym unsigned_short = "16 word"

datatype double = Finite bool rat | Infinity bool | NaN

text \<open>The value of a finite double: \<open>Finite True m\<close> is \<open>- m\<close>; both zeros have value 0.\<close>

definition valof :: "bool \<Rightarrow> rat \<Rightarrow> rat" where
  "valof s m = (if s then - m else m)"

definition pow2 :: "int \<Rightarrow> rat" where
  "pow2 k = (if 0 \<le> k then 2 ^ nat k else 1 / 2 ^ nat (- k))"

text \<open>\<open>ilog2 a\<close> is the binary exponent of a positive rational: \<open>2 ^ ilog2 a \<le> a < 2 ^ (ilog2 a + 1)\<close>.\<close>

definition ilog2 :: "rat \<Rightarrow> int" where
  "ilog2 a = (if 1 \<le> a then bitlen \<lfloor>a\<rfloor> - 1 else - bitlen (\<lceil>1 / a\<rceil> - 1))"

definition round_half_even :: "rat \<Rightarrow> int" where
  "round_half_even q =
     (let n = \<lfloor>q\<rfloor>; f = q - of_int n
      in if f < 1 / 2 then n else if 1 / 2 < f then n + 1 else if even n then n else n + 1)"

text \<open>
  Rounding a magnitude below the overflow threshold: the result is a multiple of the unit
  in the last place, \<open>2 ^ (e - 52)\<close> for a 53-bit significand, where the exponent \<open>e\<close> is
  at least \<open>- 1022\<close> (below that the values are subnormal, multiples of \<open>2 ^ - 1074\<close>).
\<close>

definition round_magnitude :: "rat \<Rightarrow> rat" where
  "round_magnitude a =
     (if a = 0 then 0
      else (let e = max (ilog2 a) (- 1022); ulp = pow2 (e - 52)
            in of_int (round_half_even (a / ulp)) * ulp))"

text \<open>
  In round-to-nearest an exact result of magnitude at least \<open>2 ^ 1024 - 2 ^ 970\<close> (the
  largest double plus half a unit in the last place) becomes an infinity.
\<close>

definition overflow_threshold :: rat where
  "overflow_threshold = 2 ^ 1024 - 2 ^ 970"

definition round_double :: "bool \<Rightarrow> rat \<Rightarrow> double" where
  "round_double s a =
     (if overflow_threshold \<le> a then Infinity s else Finite s (round_magnitude a))"

text \<open>The comparison \<^verbatim>\<open>a < b\<close>: false whenever an operand is a NaN; the zeros are equal.\<close>

fun fp_less :: "double \<Rightarrow> double \<Rightarrow> bool" where
  "fp_less NaN b = False"
| "fp_less (Finite s m) NaN = False"
| "fp_less (Infinity s) NaN = False"
| "fp_less (Infinity s) (Infinity t) = (s \<and> \<not> t)"
| "fp_less (Infinity s) (Finite t n) = s"
| "fp_less (Finite s m) (Infinity t) = (\<not> t)"
| "fp_less (Finite s m) (Finite t n) = (valof s m < valof t n)"

text \<open>
  The sum \<^verbatim>\<open>a + b\<close>. An exact sum of zero has the sign of the operands when they agree
  and is \<open>+0\<close> otherwise; infinities of opposite sign add up to a NaN.
\<close>

fun fp_add :: "double \<Rightarrow> double \<Rightarrow> double" where
  "fp_add NaN b = NaN"
| "fp_add (Finite s m) NaN = NaN"
| "fp_add (Infinity s) NaN = NaN"
| "fp_add (Infinity s) (Infinity t) = (if s = t then Infinity s else NaN)"
| "fp_add (Infinity s) (Finite t n) = Infinity s"
| "fp_add (Finite s m) (Infinity t) = Infinity t"
| "fp_add (Finite s m) (Finite t n) =
     (let r = valof s m + valof t n
      in if r = 0 then Finite (s \<and> t) 0 else round_double (r < 0) \<bar>r\<bar>)"

text \<open>
  The quotient \<^verbatim>\<open>a / b\<close>. The sign is the exclusive or of the signs; a finite nonzero value
  divided by a zero is an infinity, and \<open>0 / 0\<close> and \<open>\<infinity> / \<infinity>\<close> are NaNs.
\<close>

fun fp_div :: "double \<Rightarrow> double \<Rightarrow> double" where
  "fp_div NaN b = NaN"
| "fp_div (Finite s m) NaN = NaN"
| "fp_div (Infinity s) NaN = NaN"
| "fp_div (Infinity s) (Infinity t) = NaN"
| "fp_div (Infinity s) (Finite t n) = Infinity (s \<noteq> t)"
| "fp_div (Finite s m) (Infinity t) = Finite (s \<noteq> t) 0"
| "fp_div (Finite s m) (Finite t n) =
     (if n = 0 then (if m = 0 then NaN else Infinity (s \<noteq> t))
      else round_double (s \<noteq> t) (m / n))"

text \<open>The product \<^verbatim>\<open>a * b\<close>; a zero times an infinity is a NaN.\<close>

fun fp_mul :: "double \<Rightarrow> double \<Rightarrow> double" where
  "fp_mul NaN b = NaN"
| "fp_mul (Finite s m) NaN = NaN"
| "fp_mul (Infinity s) NaN = NaN"
| "fp_mul (Infinity s) (Infinity t) = Infinity (s \<noteq> t)"
| "fp_mul (Infinity s) (Finite t n) = (if n = 0 then NaN else Infinity (s \<noteq> t))"
| "fp_mul (Finite s m) (Infinity t) = (if m = 0 then NaN else Infinity (s \<noteq> t))"
| "fp_mul (Finite s m) (Finite t n) = round_double (s \<noteq> t) (m * n)"

text \<open>\<^verbatim>\<open>std::min(a, b)\<close> is \<^verbatim>\<open>(b < a) ? b : a\<close>.\<close>

definition std_min :: "double \<Rightarrow> double \<Rightarrow> double" where
  "std_min a b = (if fp_less b a then b else a)"

text \<open>The literal \<^verbatim>\<open>0.0\<close>, \<^verbatim>\<open>std::numeric_limits<double>::infinity()\<close> and \<^verbatim>\<open>denorm_min()\<close>.\<close>

definition zero :: double where
  "zero = Finite False 0"

definition infinity :: double where
  "infinity = Infinity False"

definition denorm_min :: double where
  "denorm_min = Finite False (pow2 (- 1074))"

text \<open>A double written as a decimal literal whose value is an integer below \<open>2 ^ 53\<close>.\<close>

definition double_of_nat :: "nat \<Rightarrow> double" where
  "double_of_nat n = round_double False (of_nat n)"


section \<open>The aggregate result of noexcept_benchmark_main.cpp (struct and free functions)\<close>

record test_result =
  number_of_times_noexcept_is_faster :: unsigned
  number_of_times_implicit_is_faster :: unsigned
  sum_of_durations_noexcept :: double
  sum_of_durations_implicit :: double

text \<open>The default member initialisers of the struct.\<close>

definition test_result_init :: test_result where
  "test_result_init =
     \<lparr>number_of_times_noexcept_is_faster = 0,
      number_of_times_implicit_is_faster = 0,
      sum_of_durations_noexcept = zero,
      sum_of_durations_implicit = zero\<rparr>"

definition max_number_of_times :: int where
  "max_number_of_times = 4"

text \<open>
  \<^verbatim>\<open>update_test_result(result, durations)\<close>: \<open>durations\<close> is the pair
  (noexcept duration, implicit duration).
\<close>

definition update_test_result :: "test_result \<Rightarrow> double \<times> double \<Rightarrow> test_result" where
  "update_test_result result durations =
     (let r1 = result\<lparr>sum_of_durations_noexcept :=
                  fp_add (sum_of_durations_noexcept result) (fst durations)\<rparr>;
          r2 = r1\<lparr>sum_of_durations_implicit :=
                  fp_add (sum_of_durations_implicit r1) (snd durations)\<rparr>;
          r3 = (if fp_less (fst durations) (snd durations)
                then r2\<lparr>number_of_times_noexcept_is_faster :=
                         number_of_times_noexcept_is_faster r2 + 1\<rparr>
                else r2)
      in if fp_less (snd durations) (fst durations)
         then r3\<lparr>number_of_times_implicit_is_faster :=
                  number_of_times_implicit_is_faster r3 + 1\<rparr>
         else r3)"

text \<open>\<^verbatim>\<open>x / ((y > 0) ? y : std::numeric_limits<double>::denorm_min())\<close>\<close>

definition divide_by_positive :: "double \<Rightarrow> double \<Rightarrow> double" where
  "divide_by_positive x y = fp_div x (if fp_less zero y then y else denorm_min)"

text \<open>
  What \<^verbatim>\<open>print_conclusion\<close> writes: one of three sentences, two of them with a ratio.
  The counter is compared with the \<^verbatim>\<open>int\<close> constant converted to \<^verbatim>\<open>unsigned\<close>.
\<close>

datatype conclusion =
    Noexcept_seems_faster double
  | Implicit_seems_faster double
  | Seems_unclear

definition print_conclusion :: "test_result \<Rightarrow> conclusion" where
  "print_conclusion result =
     (if number_of_times_noexcept_is_faster result = word_of_int max_number_of_times
      then Noexcept_seems_faster
             (divide_by_positive (sum_of_durations_implicit result)
                (sum_of_durations_noexcept result))
      else if number_of_times_implicit_is_faster result = word_of_int max_number_of_times
      then Implicit_seems_faster
             (divide_by_positive (sum_of_durations_noexcept result)
                (sum_of_durations_implicit result))
      else Seems_unclear)"


text \<open>What the program writes to the console, one event per print statement.\<close>

datatype sentence =
    Noexcept_always_faster
  | Implicit_always_faster
  | Neither_always_faster

record summary =
  shortest_noexcept :: double
  shortest_implicit :: double
  sum_noexcept :: double
  sum_implicit :: double
  ratio_noexcept_implicit :: double
  ratio_implicit_noexcept :: double
  sentences :: "sentence list"

datatype event =
    Header string nat
  | Durations double double
  | Conclusion conclusion
  | Summary summary

text \<open>\<^verbatim>\<open>print_durations(durations)\<close> writes the two durations of a trial.\<close>

definition print_durations :: "double \<times> double \<Rightarrow> event list" where
  "print_durations durations = [Durations (fst durations) (snd durations)]"

text \<open>
  The loop of a test case of \<^verbatim>\<open>main\<close>:
  \<^verbatim>\<open>for (int numberOfTimes = 0; numberOfTimes < max_number_of_times; ++numberOfTimes)\<close>,
  whose body measures a pair of durations, prints it and updates the result. The
  measurement is the environment's: \<open>trial i\<close> is the pair measured in iteration \<open>i\<close>.
\<close>

function for_numberOfTimes ::
  "int \<Rightarrow> int \<Rightarrow> (int \<Rightarrow> double \<times> double) \<Rightarrow> test_result \<times> event list
     \<Rightarrow> test_result \<times> event list" where
  "for_numberOfTimes numberOfTimes bound trial (result, out) =
     (if numberOfTimes < bound
      then (let durations = trial numberOfTimes
            in for_numberOfTimes (numberOfTimes + 1) bound trial
                 (update_test_result result durations, out @ print_durations durations))
      else (result, out))"
  by pat_completeness auto
termination
  by (relation "measure (\<lambda>(i, n, t, s). nat (n - i))") auto

declare for_numberOfTimes.simps [simp del]

text \<open>One block of \<^verbatim>\<open>main\<close>: the result, the header, the loop, the conclusion.\<close>

definition main_test_case ::
  "string \<Rightarrow> nat \<Rightarrow> (int \<Rightarrow> double \<times> double) \<Rightarrow> test_result \<times> event list" where
  "main_test_case name N trial =
     (let (result, out) =
            for_numberOfTimes 0 max_number_of_times trial (test_result_init, [Header name N])
      in (result, out @ [Conclusion (print_conclusion result)]))"


section \<open>The aggregate result as a class (test_result<N> with constructor and destructor)\<close>

record durations_type =
  duration_noexcept :: double
  duration_implicit :: double

record test_result_class =
  m_number_of_times_noexcept_is_faster :: unsigned
  m_number_of_times_implicit_is_faster :: unsigned
  m_sum_of_durations_noexcept :: double
  m_sum_of_durations_implicit :: double
  m_shortest_duration_noexcept :: double
  m_shortest_duration_implicit :: double
  m_test_case_name :: string

text \<open>The constructor initialises the members and prints the header of the test case.\<close>

definition test_result_ctor :: "nat \<Rightarrow> string \<Rightarrow> test_result_class \<times> event list" where
  "test_result_ctor N test_case_name =
     (\<lparr>m_number_of_times_noexcept_is_faster = 0,
       m_number_of_times_implicit_is_faster = 0,
       m_sum_of_durations_noexcept = zero,
       m_sum_of_durations_implicit = zero,
       m_shortest_duration_noexcept = infinity,
       m_shortest_duration_implicit = infinity,
       m_test_case_name = test_case_name\<rparr>,
      [Header test_case_name N])"

text \<open>The member function \<^verbatim>\<open>test_result<N>::update_test_result(durations)\<close>.\<close>

definition test_result_update_test_result ::
  "test_result_class \<Rightarrow> durations_type \<Rightarrow> test_result_class" where
  "test_result_update_test_result this durations =
     (let r1 = this\<lparr>m_sum_of_durations_noexcept :=
                  fp_add (m_sum_of_durations_noexcept this) (duration_noexcept durations)\<rparr>;
          r2 = r1\<lparr>m_sum_of_durations_implicit :=
                  fp_add (m_sum_of_durations_implicit r1) (duration_implicit durations)\<rparr>;
          r3 = r2\<lparr>m_shortest_duration_noexcept :=
                  std_min (m_shortest_duration_noexcept r2) (duration_noexcept durations)\<rparr>;
          r4 = r3\<lparr>m_shortest_duration_implicit :=
                  std_min (m_shortest_duration_implicit r3) (duration_implicit durations)\<rparr>;
          r5 = (if fp_less (duration_noexcept durations) (duration_implicit durations)
                then r4\<lparr>m_number_of_times_noexcept_is_faster :=
                         m_number_of_times_noexcept_is_faster r4 + 1\<rparr>
                else r4)
      in if fp_less (duration_implicit durations) (duration_noexcept durations)
         then r5\<lparr>m_number_of_times_implicit_is_faster :=
                  m_number_of_times_implicit_is_faster r5 + 1\<rparr>
         else r5)"

text \<open>
  The destructor prints the summary: the shortest durations, the sums, both ratios and
  then each of three sentences whose condition holds, in this order.
\<close>

definition test_result_dtor :: "test_result_class \<Rightarrow> event list" where
  "test_result_dtor this =
     [Summary
        \<lparr>shortest_noexcept = m_shortest_duration_noexcept this,
         shortest_implicit = m_shortest_duration_implicit this,
         sum_noexcept = m_sum_of_durations_noexcept this,
         sum_implicit = m_sum_of_durations_implicit this,
         ratio_noexcept_implicit =
           divide_by_positive (m_sum_of_durations_noexcept this)
             (m_sum_of_durations_implicit this),
         ratio_implicit_noexcept =
           divide_by_positive (m_sum_of_durations_implicit this)
             (m_sum_of_durations_noexcept this),
         sentences =
           (if m_number_of_times_implicit_is_faster this = 0
            then [Noexcept_always_faster] else []) @
           (if m_number_of_times_noexcept_is_faster this = 0
            then [Implicit_always_faster] else []) @
           (if 0 < m_number_of_times_noexcept_is_faster this
               \<and> 0 < m_number_of_times_implicit_is_faster this
            then [Neither_always_faster] else [])\<rparr>]"

definition print_durations_and_update_test_result ::
  "durations_type \<Rightarrow> test_result_class \<times> event list \<Rightarrow> test_result_class \<times> event list"
  where
  "print_durations_and_update_test_result durations s =
     (test_result_update_test_result (fst s) durations,
      snd s @ [Durations (duration_noexcept durations) (duration_implicit durations)])"

text \<open>
  The macro \<^verbatim>\<open>NOEXCEPT_BENCHMARK_NUMBER_OF_ITERATIONS\<close> as the header defines it when the
  build does not, and the constant initialised from it.
\<close>

definition NOEXCEPT_BENCHMARK_NUMBER_OF_ITERATIONS :: int where
  "NOEXCEPT_BENCHMARK_NUMBER_OF_ITERATIONS = 10"

definition number_of_iterations :: int where
  "number_of_iterations = NOEXCEPT_BENCHMARK_NUMBER_OF_ITERATIONS"

text \<open>
  \<^verbatim>\<open>for (int iteration_number = 0; iteration_number < number_of_iterations; ++iteration_number)\<close>
\<close>

function for_iteration_number ::
  "int \<Rightarrow> int \<Rightarrow> (int \<Rightarrow> durations_type) \<Rightarrow> test_result_class \<times> event list
     \<Rightarrow> test_result_class \<times> event list" where
  "for_iteration_number iteration_number bound trial s =
     (if iteration_number < bound
      then for_iteration_number (iteration_number + 1) bound trial
             (print_durations_and_update_test_result (trial iteration_number) s)
      else s)"
  by pat_completeness auto
termination
  by (relation "measure (\<lambda>(i, n, t, s). nat (n - i))") auto

declare for_iteration_number.simps [simp del]

text \<open>
  A workload may throw. \<^verbatim>\<open>main\<close> has no handler, and a function declared \<^verbatim>\<open>noexcept\<close> lets
  no exception pass: either way the exception ends the program in \<^verbatim>\<open>std::terminate\<close>. A
  measurement is therefore a pair of durations or an exception, and the loop below is the
  loop above with such measurements: an exception leaves it at once, with the output
  written so far. With measurements that all return it is the loop above.
\<close>

datatype cpp_exception = Std_exception

function for_iteration_number_throws ::
  "int \<Rightarrow> int \<Rightarrow> (int \<Rightarrow> cpp_exception + durations_type) \<Rightarrow> test_result_class \<times> event list
     \<Rightarrow> cpp_exception \<times> event list + test_result_class \<times> event list" where
  "for_iteration_number_throws iteration_number bound trial s =
     (if iteration_number < bound
      then (case trial iteration_number of
              Inl e \<Rightarrow> Inl (e, snd s)
            | Inr durations \<Rightarrow>
                for_iteration_number_throws (iteration_number + 1) bound trial
                  (print_durations_and_update_test_result durations s))
      else Inr s)"
  by pat_completeness auto
termination
  by (relation "measure (\<lambda>(i, n, t, s). nat (n - i))") auto

declare for_iteration_number_throws.simps [simp del]

text \<open>
  One block of \<^verbatim>\<open>main\<close>: the constructor runs at the declaration of \<open>result\<close> and the loop
  follows. When the loop ends, the block is left and the destructor runs: it prints the
  summary, and the object does not exist afterwards. When a workload throws, the program
  is terminated with the uncaught exception: the stack is not unwound (the language leaves
  that to the implementation, and the common ones do not unwind without a handler), the
  destructor does not run and nothing more is printed. The block yields how it ended and
  the console output.
\<close>

datatype block_end = Scope_exit | Terminate cpp_exception

definition class_test_case ::
  "nat \<Rightarrow> string \<Rightarrow> int \<Rightarrow> (int \<Rightarrow> cpp_exception + durations_type)
     \<Rightarrow> block_end \<times> event list" where
  "class_test_case N name bound trial =
     (case for_iteration_number_throws 0 bound trial (test_result_ctor N name) of
        Inl (e, out) \<Rightarrow> (Terminate e, out)
      | Inr s \<Rightarrow> (Scope_exit, snd s @ test_result_dtor (fst s)))"

text \<open>A sequence of trials recorded by a fresh object, without the console output.\<close>

definition record_trials :: "durations_type list \<Rightarrow> test_result_class" where
  "record_trials ds = foldl test_result_update_test_result (fst (test_result_ctor 0 [])) ds"


section \<open>The recursive workloads\<close>

text \<open>
  What a call of \<^verbatim>\<open>recursive_func\<close> does is counted: the calls of the function, the first
  one included, and the \<^verbatim>\<open>dummy_class\<close> objects constructed.
\<close>

record counts =
  calls :: nat
  dummies :: nat

definition no_counts :: counts where
  "no_counts = \<lparr>calls = 0, dummies = 0\<rparr>"

text \<open>
  \<^verbatim>\<open>noexcept_test::recursive_func\<close> and \<^verbatim>\<open>implicit_except_test::recursive_func\<close> have the
  same body: the \<^verbatim>\<open>unsigned short\<close> parameter is decremented first and compared with 0
  afterwards, and the dummy object is constructed inside the \<^verbatim>\<open>if\<close>.
\<close>

function recursive_func :: "unsigned_short \<Rightarrow> counts \<Rightarrow> counts" where
  "recursive_func number_of_func_calls c =
     (let n = number_of_func_calls - 1; c1 = c\<lparr>calls := calls c + 1\<rparr>
      in if 0 < n then recursive_func n (c1\<lparr>dummies := dummies c1 + 1\<rparr>) else c1)"
  by pat_completeness auto
termination
proof (relation "measure (\<lambda>(n, c). unat (n - 1))")
  show "wf (measure (\<lambda>(n, c). unat (n - 1)))" by simp
next
  fix number_of_func_calls :: unsigned_short and c :: counts and x xa
  assume x: "x = number_of_func_calls - 1" and pos: "0 < x"
  from pos have "x \<noteq> 0" by (simp add: word_greater_zero_iff)
  then have "unat (x - 1) = unat x - 1" and "0 < unat x"
    by (simp_all add: unat_minus_one unat_gt_0)
  then have "unat (x - 1) < unat x" by simp
  with x show "((x, xa\<lparr>dummies := dummies xa + 1\<rparr>), number_of_func_calls, c)
        \<in> measure (\<lambda>(n, c). unat (n - 1))"
    by simp
qed

text \<open>
  The template \<^verbatim>\<open>recursive_func<T>\<close> of the other driver constructs its dummy object at
  the start of every call.
\<close>

function recursive_func_T :: "unsigned_short \<Rightarrow> counts \<Rightarrow> counts" where
  "recursive_func_T numberOfFuncCalls c =
     (let c1 = c\<lparr>dummies := dummies c + 1, calls := calls c + 1\<rparr>; n = numberOfFuncCalls - 1
      in if 0 < n then recursive_func_T n c1 else c1)"
  by pat_completeness auto
termination
proof (relation "measure (\<lambda>(n, c). unat (n - 1))")
  show "wf (measure (\<lambda>(n, c). unat (n - 1)))" by simp
next
  fix numberOfFuncCalls :: unsigned_short and c :: counts and x xa
  assume x: "xa = numberOfFuncCalls - 1" and pos: "0 < xa"
  from pos have "xa \<noteq> 0" by (simp add: word_greater_zero_iff)
  then have "unat (xa - 1) = unat xa - 1" and "0 < unat xa"
    by (simp_all add: unat_minus_one unat_gt_0)
  then have "unat (xa - 1) < unat xa" by simp
  with x show "((xa, x), numberOfFuncCalls, c) \<in> measure (\<lambda>(n, c). unat (n - 1))"
    by simp
qed

declare recursive_func.simps [simp del]
declare recursive_func_T.simps [simp del]


section \<open>The header: throw_exception_if and profile_func_call\<close>

text \<open>
  \<^verbatim>\<open>throw_exception_if\<close> has no state to change; its outcome is to return, to fail the
  assertion (which aborts, unless \<^verbatim>\<open>NDEBUG\<close> compiles the assertion away) or to throw
  (when \<^verbatim>\<open>NOEXCEPT_BENCHMARK_THROW_EXCEPTION\<close> is not 0).
\<close>

datatype outcome = Returns | Assertion_fails | Throws_exception

definition throw_exception_if :: "bool \<Rightarrow> int \<Rightarrow> bool \<Rightarrow> outcome" where
  "throw_exception_if NDEBUG NOEXCEPT_BENCHMARK_THROW_EXCEPTION do_throw_exception =
     (if do_throw_exception
      then (if \<not> NDEBUG then Assertion_fails
            else if NOEXCEPT_BENCHMARK_THROW_EXCEPTION \<noteq> 0 then Throws_exception
            else Returns)
      else Returns)"

definition cpu_frequency :: double where
  "cpu_frequency = Finite False 3612059050"

definition loopsize :: nat where
  "loopsize = 1000"

definition minimum_of :: nat where
  "minimum_of = 3"

definition nk :: int where
  "nk = 3"

text \<open>
  The machine of the timing primitive is a cycle counter. A unit of work is its cost: the
  number of cycles one invocation takes when it starts at a given count (the cost may
  change from one invocation to the next: that is the noise).
\<close>

type_synonym cycles = nat
type_synonym work = "cycles \<Rightarrow> nat"

text \<open>
  \<^verbatim>\<open>profile_func_call(func)\<close> hands \<open>loopsize\<close>, the callable and \<open>minimum_of\<close> to
  \<^verbatim>\<open>stopwatch.measure<nk>\<close> and returns \<^verbatim>\<open>result / cpu_frequency * 1e9 / loopsize\<close>. The
  parameter \<open>stopwatch\<close> is the member function \<^verbatim>\<open>measure\<close> of the global stopwatch, whose
  class is declared in another header. Its result, a count of cycles, and the loop size
  are converted to \<^verbatim>\<open>double\<close> for the arithmetic, which is evaluated from left to right.
\<close>

definition profile_func_call ::
  "(int \<Rightarrow> nat \<Rightarrow> work \<Rightarrow> nat \<Rightarrow> cycles \<Rightarrow> nat \<times> cycles) \<Rightarrow> work \<Rightarrow> cycles
     \<Rightarrow> double \<times> cycles" where
  "profile_func_call stopwatch func t =
     (let (result, t') = stopwatch nk loopsize func minimum_of t
      in (fp_div (fp_mul (fp_div (double_of_nat result) cpu_frequency)
                    (Finite False 1000000000))
            (double_of_nat loopsize),
          t'))"

text \<open>
  Modelled from the spec: \<^verbatim>\<open>benchmark::Stopwatch::measure\<close> of \<^verbatim>\<open>cwds/benchmark.h\<close>, which the
  header includes and which is not among the sources. In the words of the spec the
  primitive executes the work repeatedly inside an inner loop of a fixed size, takes
  several such samples (a fixed ``minimum\_of'' count), computes the elapsed cycles of
  each sample and keeps the smallest sample. The comments of the header on \<open>loopsize\<close>
  (``the number of clock cycles needed for this many iterations of the test code'') and
  on \<open>minimum_of\<close> (``all but the fastest measurement of this many measurements are thrown
  away'') say the same. The spec is silent on the template argument \<open>nk\<close>, the number of
  buckets of a frequency counter: the model takes it and does not use it.

  \<open>inner_loop\<close> is one sample: \<open>k\<close> invocations of the work in a row, each advancing the
  cycle counter.
\<close>

fun inner_loop :: "nat \<Rightarrow> work \<Rightarrow> cycles \<Rightarrow> cycles" where
  "inner_loop 0 func t = t"
| "inner_loop (Suc k) func t = inner_loop k func (t + func t)"

text \<open>
  Modelled from the spec: the samples that remain to be taken, each the elapsed count of
  one inner loop, and the smallest count kept.
\<close>

fun take_samples :: "nat \<Rightarrow> nat \<Rightarrow> work \<Rightarrow> nat \<Rightarrow> cycles \<Rightarrow> nat \<times> cycles" where
  "take_samples 0 loop_size func smallest t = (smallest, t)"
| "take_samples (Suc k) loop_size func smallest t =
     (let t' = inner_loop loop_size func t
      in take_samples k loop_size func (min smallest (t' - t)) t')"

text \<open>
  Modelled from the spec: \<^verbatim>\<open>measure<buckets>(loop_size, func, samples)\<close> itself. The first
  sample is the smallest so far; with no sample to take the elapsed count is 0.
\<close>

definition stopwatch_measure ::
  "int \<Rightarrow> nat \<Rightarrow> work \<Rightarrow> nat \<Rightarrow> cycles \<Rightarrow> nat \<times> cycles" where
  "stopwatch_measure buckets loop_size func samples t =
     (case samples of
        0 \<Rightarrow> (0, t)
      | Suc k \<Rightarrow>
          (let t' = inner_loop loop_size func t
           in take_samples k loop_size func (t' - t) t'))"


section \<open>Notions used to state the properties\<close>

text \<open>
  The trials of a sequence that the no-throw variant wins strictly, and those that the
  implicit variant wins strictly; a tie is in neither.
\<close>

definition noexcept_wins :: "(double \<times> double) list \<Rightarrow> nat" where
  "noexcept_wins ts = length (filter (\<lambda>d. fp_less (fst d) (snd d)) ts)"

definition implicit_wins :: "(double \<times> double) list \<Rightarrow> nat" where
  "implicit_wins ts = length (filter (\<lambda>d. fp_less (snd d) (fst d)) ts)"

definition pair_of :: "durations_type \<Rightarrow> double \<times> double" where
  "pair_of d = (duration_noexcept d, duration_implicit d)"

text \<open>The line that a trial leaves on the console, and the summaries of an output.\<close>

definition durations_event :: "durations_type \<Rightarrow> event" where
  "durations_event d = Durations (duration_noexcept d) (duration_implicit d)"

definition pair_event :: "double \<times> double \<Rightarrow> event" where
  "pair_event d = Durations (fst d) (snd d)"

fun is_durations :: "event \<Rightarrow> bool" where
  "is_durations (Durations a b) = True"
| "is_durations e = False"

fun summaries :: "event list \<Rightarrow> summary list" where
  "summaries [] = []"
| "summaries (Summary s # es) = s # summaries es"
| "summaries (e # es) = summaries es"


text \<open>
  Two measurements with a workload that throws: in every trial, and in the second trial
  after a first trial of 5.0 and 7.0.
\<close>

definition throws_in_every_trial :: "int \<Rightarrow> cpp_exception + durations_type" where
  "throws_in_every_trial k = Inl Std_exception"

definition throws_in_second_trial :: "int \<Rightarrow> cpp_exception + durations_type" where
  "throws_in_second_trial k =
     (if k = 0
      then Inr \<lparr>duration_noexcept = Finite False 5, duration_implicit = Finite False 7\<rparr>
      else Inl Std_exception)"


section \<open>Properties of the recursive workloads\<close>

lemma unat_minus_one_short: "unat (- 1 :: unsigned_short) = 65535"
  by (simp add: unsigned_minus_1_eq_mask mask_eq_exp_minus_1)

text \<open>
  The counts of a call for every depth: by induction along the recursion. The depth 0 is
  decremented to 65535 before it is compared.
\<close>

lemma recursive_func_counts:
  "calls (recursive_func n c) = calls c + (if n = 0 then 65536 else unat n) \<and>
   dummies (recursive_func n c) = dummies c + (if n = 0 then 65535 else unat n - 1)"
proof (induction n c rule: recursive_func.induct)
  case (1 n c)
  show ?case
  proof (cases "0 < n - 1")
    case True
    let ?c = "c\<lparr>calls := calls c + 1, dummies := dummies c + 1\<rparr>"
    have pos: "0 < unat (n - 1)"
      using True by (simp add: word_greater_zero_iff unat_gt_0)
    have ih: "calls (recursive_func (n - 1) ?c) = calls c + 1 + unat (n - 1) \<and>
        dummies (recursive_func (n - 1) ?c) = dummies c + 1 + (unat (n - 1) - 1)"
      using 1 [OF refl refl True] True by (simp add: word_greater_zero_iff)
    have rec: "recursive_func n c = recursive_func (n - 1) ?c"
      using True by (subst recursive_func.simps) (simp add: Let_def)
    show ?thesis
    proof (cases "n = 0")
      case True
      then show ?thesis using ih rec by (simp add: unat_minus_one_short)
    next
      case False
      then have "unat (n - 1) = unat n - 1" by (simp add: unat_minus_one)
      then show ?thesis using ih rec False pos by simp
    qed
  next
    case False
    then have n1: "n = 1" by (simp add: word_greater_zero_iff)
    have "recursive_func n c = c\<lparr>calls := calls c + 1\<rparr>"
      using False by (subst recursive_func.simps) (simp add: Let_def)
    then show ?thesis using n1 by simp
  qed
qed

lemma recursive_func_T_counts:
  "calls (recursive_func_T n c) = calls c + (if n = 0 then 65536 else unat n) \<and>
   dummies (recursive_func_T n c) = dummies c + (if n = 0 then 65536 else unat n)"
proof (induction n c rule: recursive_func_T.induct)
  case (1 n c)
  show ?case
  proof (cases "0 < n - 1")
    case True
    let ?c = "c\<lparr>dummies := dummies c + 1, calls := calls c + 1\<rparr>"
    have pos: "0 < unat (n - 1)"
      using True by (simp add: word_greater_zero_iff unat_gt_0)
    have ih: "calls (recursive_func_T (n - 1) ?c) = calls c + 1 + unat (n - 1) \<and>
        dummies (recursive_func_T (n - 1) ?c) = dummies c + 1 + unat (n - 1)"
      using 1 [OF refl refl True] True by (simp add: word_greater_zero_iff)
    have rec: "recursive_func_T n c = recursive_func_T (n - 1) ?c"
      using True by (subst recursive_func_T.simps) (simp add: Let_def)
    show ?thesis
    proof (cases "n = 0")
      case True
      then show ?thesis using ih rec by (simp add: unat_minus_one_short)
    next
      case False
      then have "unat (n - 1) = unat n - 1" by (simp add: unat_minus_one)
      then show ?thesis using ih rec False pos by simp
    qed
  next
    case False
    then have n1: "n = 1" by (simp add: word_greater_zero_iff)
    have "recursive_func_T n c = c\<lparr>dummies := dummies c + 1, calls := calls c + 1\<rparr>"
      using False by (subst recursive_func_T.simps) (simp add: Let_def)
    then show ?thesis using n1 by simp
  qed
qed

text \<open>
  Claim C10. Called with the depth 0, \<^verbatim>\<open>recursive_func\<close> does not return at once: the
  pre-decrement wraps the \<^verbatim>\<open>unsigned short\<close> to 65535, and the first call is followed by
  65535 further calls, each of which was entered past the construction of a dummy object
  (the template of the other driver constructs one in the first call as well). For every
  depth \<open>n\<close> from 1 on there are exactly \<open>n\<close> calls in total.
\<close>

theorem recursive_func_wraps:
  "recursive_func 0 no_counts = \<lparr>calls = 1 + 65535, dummies = 65535\<rparr> \<and>
   recursive_func_T 0 no_counts = \<lparr>calls = 1 + 65535, dummies = 1 + 65535\<rparr> \<and>
   (n \<noteq> 0 \<longrightarrow> calls (recursive_func n no_counts) = unat n \<and>
                calls (recursive_func_T n no_counts) = unat n)"
proof -
  have eq: "\<And>r :: counts. r = \<lparr>calls = calls r, dummies = dummies r\<rparr>" by simp
  have "recursive_func 0 no_counts = \<lparr>calls = 1 + 65535, dummies = 65535\<rparr>"
    using recursive_func_counts [of 0 no_counts]
    by (subst eq) (simp add: no_counts_def)
  moreover have "recursive_func_T 0 no_counts = \<lparr>calls = 1 + 65535, dummies = 1 + 65535\<rparr>"
    using recursive_func_T_counts [of 0 no_counts]
    by (subst eq) (simp add: no_counts_def)
  moreover have "n \<noteq> 0 \<longrightarrow> calls (recursive_func n no_counts) = unat n \<and>
                calls (recursive_func_T n no_counts) = unat n"
    using recursive_func_counts [of n no_counts] recursive_func_T_counts [of n no_counts]
    by (simp add: no_counts_def)
  ultimately show ?thesis by blast
qed

theorem recursive_func_wraps_witness:
  "(3 :: unsigned_short) \<noteq> 0 \<and> calls (recursive_func 3 no_counts) = 3 \<and>
     calls (recursive_func_T 3 no_counts) = 3"
  using recursive_func_wraps [of 3] by simp


section \<open>Properties of throw_exception_if\<close>

text \<open>
  Claim C9. With \<^verbatim>\<open>do_throw_exception = false\<close> the function returns normally, in every
  build configuration; an outcome other than a normal return (the failed assertion or the
  exception) occurs only with \<^verbatim>\<open>do_throw_exception = true\<close>.
\<close>

theorem throw_exception_if_false:
  "throw_exception_if NDEBUG THROW False = Returns \<and>
   (throw_exception_if NDEBUG THROW do_throw_exception \<noteq> Returns \<longrightarrow> do_throw_exception)"
  by (simp add: throw_exception_if_def)

theorem throw_exception_if_false_witness:
  "throw_exception_if False 1 False = Returns \<and>
   throw_exception_if False 1 True \<noteq> Returns \<and> True"
  using throw_exception_if_false [of False 1 True] by (simp add: throw_exception_if_def)

section \<open>Properties of recording a trial\<close>

lemma fp_less_asym: "fp_less a b \<Longrightarrow> \<not> fp_less b a"
  by (cases a; cases b) (auto simp: valof_def)

text \<open>
  Claim C3. Recording the pair of durations \<open>(a, b)\<close> (no-throw, implicit) increments the
  ``no-throw faster'' counter exactly when \<open>a < b\<close> and the ``implicit faster'' counter
  exactly when \<open>b < a\<close>, never both, so a tie increments neither; it adds \<open>a\<close> and \<open>b\<close>
  to their running sums; and the class, which tracks the shortest durations, replaces
  each by the minimum with the new duration. This holds for the free function of
  \<^verbatim>\<open>noexcept_benchmark_main.cpp\<close> and for the member function of \<^verbatim>\<open>test_result<N>\<close>.
\<close>

theorem update_test_result_records_trial:
  "number_of_times_noexcept_is_faster (update_test_result r (a, b)) =
     number_of_times_noexcept_is_faster r + (if fp_less a b then 1 else 0) \<and>
   number_of_times_implicit_is_faster (update_test_result r (a, b)) =
     number_of_times_implicit_is_faster r + (if fp_less b a then 1 else 0) \<and>
   sum_of_durations_noexcept (update_test_result r (a, b)) =
     fp_add (sum_of_durations_noexcept r) a \<and>
   sum_of_durations_implicit (update_test_result r (a, b)) =
     fp_add (sum_of_durations_implicit r) b \<and>
   test_result_update_test_result c \<lparr>duration_noexcept = a, duration_implicit = b\<rparr> =
     c\<lparr>m_number_of_times_noexcept_is_faster :=
         m_number_of_times_noexcept_is_faster c + (if fp_less a b then 1 else 0),
       m_number_of_times_implicit_is_faster :=
         m_number_of_times_implicit_is_faster c + (if fp_less b a then 1 else 0),
       m_sum_of_durations_noexcept := fp_add (m_sum_of_durations_noexcept c) a,
       m_sum_of_durations_implicit := fp_add (m_sum_of_durations_implicit c) b,
       m_shortest_duration_noexcept := std_min (m_shortest_duration_noexcept c) a,
       m_shortest_duration_implicit := std_min (m_shortest_duration_implicit c) b\<rparr> \<and>
   \<not> (fp_less a b \<and> fp_less b a)"
  using fp_less_asym [of a b]
  by (auto simp add: update_test_result_def test_result_update_test_result_def Let_def)

text \<open>No trial is won by both variants, so the wins are at most the trials.\<close>

lemma wins_le_length: "noexcept_wins ts + implicit_wins ts \<le> length ts"
proof (induction ts)
  case Nil
  then show ?case by (simp add: noexcept_wins_def implicit_wins_def)
next
  case (Cons d ts)
  then show ?case
    using fp_less_asym [of "fst d" "snd d"]
    by (auto simp add: noexcept_wins_def implicit_wins_def)
qed

text \<open>
  After a sequence of trials each counter has grown by the number of trials its variant
  won, as a 32-bit value.
\<close>

lemma foldl_update_test_result_counters:
  "number_of_times_noexcept_is_faster (foldl update_test_result r ts) =
     number_of_times_noexcept_is_faster r + of_nat (noexcept_wins ts) \<and>
   number_of_times_implicit_is_faster (foldl update_test_result r ts) =
     number_of_times_implicit_is_faster r + of_nat (implicit_wins ts)"
proof (induction ts arbitrary: r)
  case Nil
  then show ?case by (simp add: noexcept_wins_def implicit_wins_def)
next
  case (Cons d ts)
  show ?case
    using Cons [of "update_test_result r d"]
    by (simp add: noexcept_wins_def implicit_wins_def update_test_result_def Let_def)
qed

lemma foldl_class_counters:
  "m_number_of_times_noexcept_is_faster (foldl test_result_update_test_result r ds) =
     m_number_of_times_noexcept_is_faster r + of_nat (noexcept_wins (map pair_of ds)) \<and>
   m_number_of_times_implicit_is_faster (foldl test_result_update_test_result r ds) =
     m_number_of_times_implicit_is_faster r + of_nat (implicit_wins (map pair_of ds))"
proof (induction ds arbitrary: r)
  case Nil
  then show ?case by (simp add: noexcept_wins_def implicit_wins_def)
next
  case (Cons d ds)
  show ?case
    using Cons [of "test_result_update_test_result r d"]
    by (simp add: noexcept_wins_def implicit_wins_def pair_of_def
          test_result_update_test_result_def Let_def)
qed

lemma unat_of_nat_le: "unat (of_nat k :: unsigned) \<le> k"
  by (simp add: unat_of_nat)

text \<open>
  Claim C4. After any sequence of recorded trials, starting from a fresh accumulator, the
  two ``faster'' counts add up to at most the number of trials, which is the number of
  calls made (the length of the sequence; the accumulators keep no count of their own).
  The counts are read as unsigned numbers and added without wrap-around.
\<close>

theorem faster_counts_le_trials:
  "unat (number_of_times_noexcept_is_faster (foldl update_test_result test_result_init ts)) +
   unat (number_of_times_implicit_is_faster (foldl update_test_result test_result_init ts))
     \<le> length ts \<and>
   unat (m_number_of_times_noexcept_is_faster (record_trials ds)) +
   unat (m_number_of_times_implicit_is_faster (record_trials ds))
     \<le> length ds"
proof -
  have "unat (of_nat (noexcept_wins ts) :: unsigned) + unat (of_nat (implicit_wins ts) :: unsigned)
      \<le> length ts"
    using unat_of_nat_le [of "noexcept_wins ts"] unat_of_nat_le [of "implicit_wins ts"]
      wins_le_length [of ts]
    by linarith
  moreover have "unat (of_nat (noexcept_wins (map pair_of ds)) :: unsigned)
      + unat (of_nat (implicit_wins (map pair_of ds)) :: unsigned) \<le> length ds"
    using unat_of_nat_le [of "noexcept_wins (map pair_of ds)"]
      unat_of_nat_le [of "implicit_wins (map pair_of ds)"]
      wins_le_length [of "map pair_of ds"]
    by simp
  ultimately show ?thesis
    using foldl_update_test_result_counters [of test_result_init ts]
      foldl_class_counters [of "fst (test_result_ctor 0 [])" ds]
    by (simp add: test_result_init_def test_result_ctor_def record_trials_def)
qed


section \<open>Properties of the driver loops\<close>

text \<open>Both loops run their body for the indices from 0 to the bound, the bound excluded.\<close>

lemma for_iteration_number_upto:
  "for_iteration_number i n trial s =
     foldl (\<lambda>s k. print_durations_and_update_test_result (trial k) s) s [i..n - 1]"
proof (induction i n trial s rule: for_iteration_number.induct)
  case (1 i n trial s)
  show ?case
  proof (cases "i < n")
    case True
    then have "[i..n - 1] = i # [i + 1..n - 1]" by (simp add: upto_rec1)
    then show ?thesis
      using True 1 by (subst for_iteration_number.simps) simp
  next
    case False
    then show ?thesis by (subst for_iteration_number.simps) simp
  qed
qed

lemma foldl_print_and_update:
  "foldl (\<lambda>s k. print_durations_and_update_test_result (trial k) s) s ks =
     (foldl test_result_update_test_result (fst s) (map trial ks),
      snd s @ map (\<lambda>k. durations_event (trial k)) ks)"
  by (induction ks arbitrary: s)
     (simp_all add: print_durations_and_update_test_result_def durations_event_def)

lemma for_numberOfTimes_upto:
  "for_numberOfTimes i n trial (r, out) =
     foldl (\<lambda>s k. (update_test_result (fst s) (trial k), snd s @ print_durations (trial k)))
       (r, out) [i..n - 1]"
proof (induction i n trial "(r, out)" arbitrary: r out rule: for_numberOfTimes.induct)
  case (1 i n trial r out)
  show ?case
  proof (cases "i < n")
    case True
    then have "[i..n - 1] = i # [i + 1..n - 1]" by (simp add: upto_rec1)
    then show ?thesis
      using True 1 [OF True refl] by (subst for_numberOfTimes.simps) (simp add: Let_def)
  next
    case False
    then show ?thesis by (subst for_numberOfTimes.simps) simp
  qed
qed

lemma foldl_update_and_print:
  "foldl (\<lambda>s k. (update_test_result (fst s) (trial k), snd s @ print_durations (trial k))) s ks =
     (foldl update_test_result (fst s) (map trial ks),
      snd s @ map (\<lambda>k. pair_event (trial k)) ks)"
  by (induction ks arbitrary: s) (simp_all add: print_durations_def pair_event_def)

lemma upto_0_3: "[0..(4::int) - 1] = [0, 1, 2, 3]"
  by (simp add: upto_rec1)

lemma upto_0_9: "[0..(10::int) - 1] = [0, 1, 2, 3, 4, 5, 6, 7, 8, 9]"
  by (simp add: upto_rec1)

text \<open>
  Claim C7. Every test case runs a fixed number of trials, between 4 and 10: the loop of
  \<^verbatim>\<open>noexcept_benchmark_main.cpp\<close> measures, prints and records exactly the 4 trials with
  the indices 0 to 3 (\<open>max_number_of_times\<close>), so that the result of a test case is the
  fresh accumulator after these 4 trials, and the loop of the driver with the class
  exactly the 10 trials with the indices 0 to 9 (\<open>number_of_iterations\<close>, which is
  \<^verbatim>\<open>NOEXCEPT_BENCHMARK_NUMBER_OF_ITERATIONS\<close> at its default), whatever the measurements are
  and whatever the accumulator and the output were before the loop. For any bound the
  second loop records exactly the trials with the indices from 0 up to the bound, the
  bound excluded: as many trials as the bound says.
\<close>

theorem trials_per_test_case:
  "max_number_of_times = 4 \<and> number_of_iterations = 10 \<and>
   fst (main_test_case name N trial) =
     foldl update_test_result test_result_init (map trial [0, 1, 2, 3]) \<and>
   for_numberOfTimes 0 max_number_of_times trial (r, out) =
     (foldl update_test_result r (map trial [0, 1, 2, 3]),
      out @ map (\<lambda>k. pair_event (trial k)) [0, 1, 2, 3]) \<and>
   for_iteration_number 0 number_of_iterations trial' s =
     (foldl test_result_update_test_result (fst s) (map trial' [0, 1, 2, 3, 4, 5, 6, 7, 8, 9]),
      snd s @ map (\<lambda>k. durations_event (trial' k)) [0, 1, 2, 3, 4, 5, 6, 7, 8, 9]) \<and>
   for_iteration_number 0 bound trial' s =
     (foldl test_result_update_test_result (fst s) (map trial' [0..bound - 1]),
      snd s @ map (\<lambda>k. durations_event (trial' k)) [0..bound - 1]) \<and>
   length [0..bound - 1] = nat bound"
proof -
  have "for_numberOfTimes 0 4 trial (r, out) =
     (foldl update_test_result r (map trial [0, 1, 2, 3]),
      out @ map (\<lambda>k. pair_event (trial k)) [0, 1, 2, 3])"
    unfolding for_numberOfTimes_upto foldl_update_and_print upto_0_3 by simp
  moreover have "for_iteration_number 0 10 trial' s =
     (foldl test_result_update_test_result (fst s) (map trial' [0, 1, 2, 3, 4, 5, 6, 7, 8, 9]),
      snd s @ map (\<lambda>k. durations_event (trial' k)) [0, 1, 2, 3, 4, 5, 6, 7, 8, 9])"
    unfolding for_iteration_number_upto foldl_print_and_update upto_0_9 by simp
  moreover have "for_iteration_number 0 bound trial' s =
     (foldl test_result_update_test_result (fst s) (map trial' [0..bound - 1]),
      snd s @ map (\<lambda>k. durations_event (trial' k)) [0..bound - 1])"
    unfolding for_iteration_number_upto foldl_print_and_update by simp
  moreover have "fst (main_test_case name N trial) =
     foldl update_test_result test_result_init (map trial [0, 1, 2, 3])"
    unfolding main_test_case_def max_number_of_times_def for_numberOfTimes_upto
      foldl_update_and_print upto_0_3
    by simp
  ultimately show ?thesis
    by (simp add: max_number_of_times_def number_of_iterations_def
          NOEXCEPT_BENCHMARK_NUMBER_OF_ITERATIONS_def)
qed

text \<open>With measurements that all return, the loop with exceptions is the loop without.\<close>

lemma throws_returning:
  "for_iteration_number_throws i n (\<lambda>k. Inr (trial k)) s = Inr (for_iteration_number i n trial s)"
proof (induction i n trial s rule: for_iteration_number.induct)
  case (1 i n trial s)
  show ?case
  proof (cases "i < n")
    case True
    then show ?thesis
      using 1 [OF True]
      by (subst for_iteration_number_throws.simps, subst for_iteration_number.simps) simp
  next
    case False
    then show ?thesis
      by (subst for_iteration_number_throws.simps, subst for_iteration_number.simps) simp
  qed
qed

text \<open>
  When the trials before the index \<open>k\<close> return the durations \<open>ds\<close> and the trial \<open>k\<close> throws,
  the loop is left with the lines of \<open>ds\<close> as its only output.
\<close>

lemma throws_at:
  "map trial [i..k - 1] = map Inr ds \<Longrightarrow> trial k = Inl e \<Longrightarrow> i \<le> k \<Longrightarrow> k < n \<Longrightarrow>
   for_iteration_number_throws i n trial s = Inl (e, snd s @ map durations_event ds)"
proof (induction ds arbitrary: i s)
  case Nil
  then have "i = k" by simp
  then show ?case
    using Nil by (subst for_iteration_number_throws.simps) simp
next
  case (Cons d ds)
  from Cons.prems(1) have ne: "[i..k - 1] \<noteq> []" by auto
  then have lt: "i < k" by simp
  then have up: "[i..k - 1] = i # [i + 1..k - 1]" by (simp add: upto_rec1)
  from Cons.prems(1) up have d: "trial i = Inr d" and rest: "map trial [i + 1..k - 1] = map Inr ds"
    by simp_all
  have "for_iteration_number_throws (i + 1) n trial (print_durations_and_update_test_result d s)
      = Inl (e, snd (print_durations_and_update_test_result d s) @ map durations_event ds)"
    using Cons.IH [OF rest Cons.prems(2)] lt Cons.prems(4) by simp
  then show ?case
    using d lt Cons.prems(4)
    by (subst for_iteration_number_throws.simps)
       (simp add: print_durations_and_update_test_result_def durations_event_def)
qed

lemma summaries_append: "summaries (xs @ ys) = summaries xs @ summaries ys"
  by (induction xs rule: summaries.induct) simp_all

text \<open>The loop prints no summary, however it ends.\<close>

lemma throws_summaries:
  "(case for_iteration_number_throws i n trial s of
      Inl (e, out) \<Rightarrow> summaries out = summaries (snd s)
    | Inr s' \<Rightarrow> summaries (snd s') = summaries (snd s))"
proof (induction i n trial s rule: for_iteration_number_throws.induct)
  case (1 i n trial s)
  show ?case
  proof (cases "i < n")
    case False
    then show ?thesis by (subst for_iteration_number_throws.simps) simp
  next
    case True
    show ?thesis
    proof (cases "trial i")
      case (Inl e)
      then show ?thesis using True by (subst for_iteration_number_throws.simps) simp
    next
      case (Inr d)
      have "summaries (snd (print_durations_and_update_test_result d s)) = summaries (snd s)"
        by (simp add: print_durations_and_update_test_result_def summaries_append)
      then show ?thesis
        using 1 [OF True Inr] True Inr
        by (subst for_iteration_number_throws.simps) (auto split: sum.splits prod.splits)
    qed
  qed
qed

text \<open>
  Claim C8, as the code has it. When every measurement of a test case returns, its
  console output is the header printed by the constructor, then one line per recorded
  trial, in the order of the loop (none when the bound is not positive), then the summary
  printed by the destructor for the accumulator as the trials left it: the block is left
  once, the summary is the last event, and no trial is recorded after it. When the
  workload of a trial throws, the program is terminated there: the output is the header
  and the lines of the trials before, and no summary is printed. In every run the summary
  is printed at most once, and exactly once if and only if the block is left normally.
\<close>

theorem test_case_life_cycle:
  "class_test_case N name bound (\<lambda>k. Inr (trial k)) =
     (Scope_exit,
      [Header name N] @
      map (\<lambda>k. durations_event (trial k)) [0..bound - 1] @
      test_result_dtor
        (foldl test_result_update_test_result (fst (test_result_ctor N name))
           (map trial [0..bound - 1]))) \<and>
   summaries [last (snd (class_test_case N name bound (\<lambda>k. Inr (trial k))))] =
     summaries (snd (class_test_case N name bound (\<lambda>k. Inr (trial k)))) \<and>
   length (filter is_durations (snd (class_test_case N name bound (\<lambda>k. Inr (trial k)))))
     = nat bound \<and>
   (map trial' [0..k - 1] = map Inr ds \<and> trial' k = Inl e \<and> 0 \<le> k \<and> k < bound \<longrightarrow>
      class_test_case N name bound trial' =
        (Terminate e, [Header name N] @ map durations_event ds)) \<and>
   length (summaries (snd (class_test_case N name bound trial'))) =
     (if fst (class_test_case N name bound trial') = Scope_exit then 1 else 0)"
proof -
  have shape: "class_test_case N name bound (\<lambda>k. Inr (trial k)) =
     (Scope_exit,
      [Header name N] @
      map (\<lambda>k. durations_event (trial k)) [0..bound - 1] @
      test_result_dtor
        (foldl test_result_update_test_result (fst (test_result_ctor N name))
           (map trial [0..bound - 1])))"
    by (simp add: class_test_case_def throws_returning for_iteration_number_upto
          foldl_print_and_update test_result_ctor_def)
  have f1: "summaries (map (\<lambda>k. durations_event (trial k)) ks @ es) = summaries es" for ks es
    by (induction ks) (simp_all add: durations_event_def)
  have f2: "filter is_durations (map (\<lambda>k. durations_event (trial k)) ks)
       = map (\<lambda>k. durations_event (trial k)) ks" for ks
    by (induction ks) (simp_all add: durations_event_def)
  have a: "summaries [last (snd (class_test_case N name bound (\<lambda>k. Inr (trial k))))] =
     summaries (snd (class_test_case N name bound (\<lambda>k. Inr (trial k))))"
    unfolding shape by (simp add: f1 test_result_dtor_def)
  have b: "length (filter is_durations (snd (class_test_case N name bound (\<lambda>k. Inr (trial k)))))
     = nat bound"
    unfolding shape by (simp add: f2 test_result_dtor_def)
  have c: "map trial' [0..k - 1] = map Inr ds \<and> trial' k = Inl e \<and> 0 \<le> k \<and> k < bound \<longrightarrow>
      class_test_case N name bound trial' =
        (Terminate e, [Header name N] @ map durations_event ds)"
  proof
    assume h: "map trial' [0..k - 1] = map Inr ds \<and> trial' k = Inl e \<and> 0 \<le> k \<and> k < bound"
    then have "for_iteration_number_throws 0 bound trial' (test_result_ctor N name) =
        Inl (e, snd (test_result_ctor N name) @ map durations_event ds)"
      using throws_at [where i = 0 and s = "test_result_ctor N name" and trial = trial'
          and k = k and ds = ds and e = e and n = bound]
      by blast
    then show "class_test_case N name bound trial' =
        (Terminate e, [Header name N] @ map durations_event ds)"
      by (simp add: class_test_case_def test_result_ctor_def)
  qed
  have d: "length (summaries (snd (class_test_case N name bound trial'))) =
     (if fst (class_test_case N name bound trial') = Scope_exit then 1 else 0)"
    using throws_summaries [where i = 0 and n = bound and trial = trial'
        and s = "test_result_ctor N name"]
    by (auto simp add: class_test_case_def test_result_ctor_def summaries_append
          test_result_dtor_def split: sum.splits prod.splits)
  show ?thesis using shape a b c d by blast
qed

theorem test_case_life_cycle_witness:
  "map throws_in_second_trial [0..1 - 1] =
     map Inr [\<lparr>duration_noexcept = Finite False 5, duration_implicit = Finite False 7\<rparr>] \<and>
   throws_in_second_trial 1 = Inl Std_exception \<and> (0 :: int) \<le> 1 \<and> (1 :: int) < 10 \<and>
   class_test_case 42 ''inline function calls'' 10 throws_in_second_trial =
     (Terminate Std_exception,
      [Header ''inline function calls'' 42, Durations (Finite False 5) (Finite False 7)])"
proof -
  have h: "map throws_in_second_trial [0..1 - 1] =
       map Inr [\<lparr>duration_noexcept = Finite False 5, duration_implicit = Finite False 7\<rparr>] \<and>
     throws_in_second_trial 1 = Inl Std_exception \<and> (0 :: int) \<le> 1 \<and> (1 :: int) < 10"
    by (simp add: throws_in_second_trial_def)
  have "class_test_case 42 ''inline function calls'' 10 throws_in_second_trial =
     (Terminate Std_exception,
      [Header ''inline function calls'' 42] @
      map durations_event
        [\<lparr>duration_noexcept = Finite False 5, duration_implicit = Finite False 7\<rparr>])"
    using h test_case_life_cycle [where trial' = throws_in_second_trial and k = 1
        and bound = 10 and e = Std_exception
        and ds = "[\<lparr>duration_noexcept = Finite False 5, duration_implicit = Finite False 7\<rparr>]"]
    by blast
  then show ?thesis using h by (simp add: durations_event_def)
qed

text \<open>
  The claim as the specification states it fails: when the workload of the first trial
  throws, the test case is never finalized; its output is the header alone, without a
  summary.
\<close>

theorem test_case_without_summary_counterexample:
  "class_test_case 42 ''inline function calls'' 10 throws_in_every_trial =
     (Terminate Std_exception, [Header ''inline function calls'' 42]) \<and>
   summaries (snd (class_test_case 42 ''inline function calls'' 10 throws_in_every_trial)) = []"
proof -
  have "for_iteration_number_throws 0 10 throws_in_every_trial
      (test_result_ctor 42 ''inline function calls'') =
    Inl (Std_exception, snd (test_result_ctor 42 ''inline function calls''))"
    by (subst for_iteration_number_throws.simps) (simp add: throws_in_every_trial_def)
  then have "class_test_case 42 ''inline function calls'' 10 throws_in_every_trial =
     (Terminate Std_exception, [Header ''inline function calls'' 42])"
    by (simp add: class_test_case_def test_result_ctor_def)
  then show ?thesis by simp
qed


section \<open>Evaluating the arithmetic on numerals\<close>

lemma floor_rat_numeral_div: "\<lfloor>numeral a / numeral b :: rat\<rfloor> = numeral a div numeral b"
proof -
  have "\<lfloor>rat_of_int (numeral a) / rat_of_int (numeral b)\<rfloor> = numeral a div numeral b"
    by (rule floor_divide_of_int_eq)
  then show ?thesis by simp
qed

lemma ceiling_rat_numeral_div:
  "\<lceil>numeral a / numeral b :: rat\<rceil> = - (- numeral a div numeral b)"
  using ceiling_divide_eq_div [of "numeral a" "numeral b", where ?'a = rat] by simp

lemmas fp_eval = round_double_def overflow_threshold_def round_magnitude_def ilog2_def
  pow2_def round_half_even_def valof_def Let_def compute_bitlen floor_rat_numeral_div
  ceiling_rat_numeral_div zero_def denorm_min_def infinity_def std_min_def
  divide_by_positive_def

lemmas run_eval = record_trials_def test_result_ctor_def test_result_update_test_result_def
  test_result_dtor_def test_result_init_def update_test_result_def


section \<open>Properties of the ratio\<close>

lemma denorm_min_eq: "denorm_min = Finite False (1 / 2 ^ 1074)"
  by (simp add: denorm_min_def pow2_def)

text \<open>
  A magnitude divided by \<open>2 ^ - 1074\<close> reaches the overflow threshold as soon as it is
  \<open>2 ^ - 50 - 2 ^ - 104\<close>; the smallest double from there on is \<open>2 ^ - 50\<close>.
\<close>

lemma overflow_quotient_iff:
  "overflow_threshold \<le> m / (1 / 2 ^ 1074) \<longleftrightarrow> 1 / 2 ^ 50 - 1 / 2 ^ 104 \<le> m"
proof -
  have "(1 / 2 ^ 50 - 1 / 2 ^ 104) * 2 ^ 1074 = (2 ^ 1024 - 2 ^ 970 :: rat)"
    by (simp add: algebra_simps)
  moreover have "(1 / 2 ^ 50 - 1 / 2 ^ 104) * 2 ^ 1074 \<le> m * (2 ^ 1074 :: rat)
      \<longleftrightarrow> 1 / 2 ^ 50 - 1 / 2 ^ 104 \<le> m"
    by (rule mult_le_cancel_right_pos) simp
  ultimately show ?thesis by (simp add: overflow_threshold_def)
qed

lemma zero_four_trial:
  "map ratio_implicit_noexcept
     (summaries (test_result_dtor
        (record_trials [\<lparr>duration_noexcept = Finite False 0,
                          duration_implicit = Finite False 4\<rparr>]))) = [Infinity False]"
  by (simp add: run_eval fp_eval)

text \<open>
  Claim C1, as the code has it. For a denominator \<open>y\<close> that is not positive (\<open>y \<le> 0\<close>, or
  a NaN) \<^verbatim>\<open>divide_by_positive(x, y)\<close> divides by the smallest positive double,
  \<open>2 ^ - 1074\<close>, instead of \<open>y\<close>: there is no division by zero and, for a finite \<open>x\<close>, no NaN.
  But the quotient is \<open>x\<close> times \<open>2 ^ 1074\<close>, which overflows: for a finite \<open>x\<close> of
  magnitude \<open>m\<close> the result is an infinity as soon as \<open>m\<close> reaches \<open>2 ^ - 50 - 2 ^ - 104\<close>,
  that is for every double from \<open>2 ^ - 50\<close> (about \<open>8.9e-16\<close>) on, and it is finite below
  (0 for \<open>x = 0\<close>). For the single trial \<open>(0.0, 4.0)\<close> the ratio of the sums
  implicit/noexcept that the summary reports is \<open>+\<infinity>\<close>.
\<close>

theorem divide_by_positive_nonpositive:
  assumes "\<not> fp_less zero y"
  shows "divide_by_positive x y = fp_div x denorm_min \<and>
         divide_by_positive (Finite s m) y =
           (if 1 / 2 ^ 50 - 1 / 2 ^ 104 \<le> m then Infinity s
            else Finite s (round_magnitude (m * 2 ^ 1074))) \<and>
         map ratio_implicit_noexcept
           (summaries (test_result_dtor
              (record_trials [\<lparr>duration_noexcept = Finite False 0,
                                duration_implicit = Finite False 4\<rparr>]))) = [Infinity False]"
proof -
  have d: "divide_by_positive x y = fp_div x denorm_min" for x
    using assms by (simp add: divide_by_positive_def)
  have nz: "(1 / 2 ^ 1074 :: rat) \<noteq> 0" by simp
  have "fp_div (Finite s m) denorm_min =
      (if 1 / 2 ^ 50 - 1 / 2 ^ 104 \<le> m then Infinity s
       else Finite s (round_magnitude (m * 2 ^ 1074)))"
    unfolding denorm_min_eq using nz overflow_quotient_iff [of m]
    by (simp add: round_double_def)
  then show ?thesis using d zero_four_trial by simp
qed

theorem divide_by_positive_nonpositive_witness:
  "\<not> fp_less zero (Finite True 1) \<and>
   divide_by_positive (Finite False 1) (Finite True 1) = Infinity False \<and>
   divide_by_positive (Finite False 0) (Finite True 1) = Finite False 0"
proof -
  have h: "\<not> fp_less zero (Finite True 1)" by (simp add: zero_def valof_def)
  have "divide_by_positive (Finite False 1) (Finite True 1) =
      (if 1 / 2 ^ 50 - 1 / 2 ^ 104 \<le> (1 :: rat) then Infinity False
       else Finite False (round_magnitude (1 * 2 ^ 1074)))"
    using divide_by_positive_nonpositive [OF h, of "Finite False 1" False 1] by blast
  then have one: "divide_by_positive (Finite False 1) (Finite True 1) = Infinity False"
    by simp
  have "divide_by_positive (Finite False 0) (Finite True 1) =
      (if 1 / 2 ^ 50 - 1 / 2 ^ 104 \<le> (0 :: rat) then Infinity False
       else Finite False (round_magnitude (0 * 2 ^ 1074)))"
    using divide_by_positive_nonpositive [OF h, of "Finite False 0" False 0] by blast
  then have "divide_by_positive (Finite False 0) (Finite True 1) = Finite False 0"
    by (simp add: round_magnitude_def)
  with h one show ?thesis by blast
qed

text \<open>
  The claim as the specification states it fails: \<open>4.0\<close> divided by the denominator
  \<open>0.0\<close> is not a large finite number but \<open>+\<infinity>\<close>.
\<close>

theorem divide_by_positive_infinite_counterexample:
  "divide_by_positive (Finite False 4) (Finite False 0) = Infinity False"
  by (simp add: fp_eval)

section \<open>Properties of the verdict\<close>

lemma word_of_nat_eq_0_iff: "k < 2 ^ 32 \<Longrightarrow> (of_nat k :: unsigned) = 0 \<longleftrightarrow> k = 0"
proof
  assume k: "k < 2 ^ 32" and z: "(of_nat k :: unsigned) = 0"
  have "unat (of_nat k :: unsigned) = k" using k by (simp add: unat_of_nat)
  with z show "k = 0" by simp
next
  assume "k = 0"
  then show "(of_nat k :: unsigned) = 0" by simp
qed

lemma word_of_nat_eq_4_iff: "k \<le> 4 \<Longrightarrow> (of_nat k :: unsigned) = 4 \<longleftrightarrow> k = 4"
proof
  assume k: "k \<le> 4" and z: "(of_nat k :: unsigned) = 4"
  have "unat (of_nat k :: unsigned) = k" using k by (simp add: unat_of_nat)
  with z show "k = 4" by simp
next
  assume "k = 4"
  then show "(of_nat k :: unsigned) = 4" by simp
qed

text \<open>\<^verbatim>\<open>print_conclusion\<close> compares each counter with the constant 4.\<close>

lemma print_conclusion_cases:
  "print_conclusion r =
     (if number_of_times_noexcept_is_faster r = 4
      then Noexcept_seems_faster
             (divide_by_positive (sum_of_durations_implicit r) (sum_of_durations_noexcept r))
      else if number_of_times_implicit_is_faster r = 4
      then Implicit_seems_faster
             (divide_by_positive (sum_of_durations_noexcept r) (sum_of_durations_implicit r))
      else Seems_unclear)"
  by (simp add: print_conclusion_def max_number_of_times_def)

text \<open>After 4 trials a counter is 4 exactly when its variant has won every trial.\<close>

lemma four_trials_counters:
  assumes "length ts = 4"
  shows "(number_of_times_noexcept_is_faster (foldl update_test_result test_result_init ts) = 4
            \<longleftrightarrow> noexcept_wins ts = length ts) \<and>
         (number_of_times_implicit_is_faster (foldl update_test_result test_result_init ts) = 4
            \<longleftrightarrow> implicit_wins ts = length ts)"
proof -
  have "noexcept_wins ts \<le> 4" and "implicit_wins ts \<le> 4"
    using wins_le_length [of ts] assms by simp_all
  then show ?thesis
    using foldl_update_test_result_counters [of test_result_init ts] assms
    by (simp add: test_result_init_def word_of_nat_eq_4_iff)
qed

lemma dtor_ratios:
  "map ratio_implicit_noexcept (summaries (test_result_dtor c)) =
     [divide_by_positive (m_sum_of_durations_implicit c) (m_sum_of_durations_noexcept c)] \<and>
   map ratio_noexcept_implicit (summaries (test_result_dtor c)) =
     [divide_by_positive (m_sum_of_durations_noexcept c) (m_sum_of_durations_implicit c)]"
  by (simp add: test_result_dtor_def)

text \<open>
  The destructor decides each sentence by the counter of the other variant. When the
  counters are not both 0, exactly one sentence is printed.
\<close>

lemma dtor_sentences:
  assumes "m_number_of_times_noexcept_is_faster c \<noteq> 0
           \<or> m_number_of_times_implicit_is_faster c \<noteq> 0"
  shows "map sentences (summaries (test_result_dtor c)) =
     [if m_number_of_times_implicit_is_faster c = 0 then [Noexcept_always_faster]
      else if m_number_of_times_noexcept_is_faster c = 0 then [Implicit_always_faster]
      else [Neither_always_faster]]"
  using assms by (auto simp add: test_result_dtor_def word_greater_zero_iff)

lemma record_trials_counters:
  "m_number_of_times_noexcept_is_faster (record_trials ds) =
     of_nat (noexcept_wins (map pair_of ds)) \<and>
   m_number_of_times_implicit_is_faster (record_trials ds) =
     of_nat (implicit_wins (map pair_of ds))"
  using foldl_class_counters [of "fst (test_result_ctor 0 [])" ds]
  by (simp add: record_trials_def test_result_ctor_def)

text \<open>
  Without a tie every trial is won by one variant; then a counter of 0 on one side means
  that the other side has won all the trials.
\<close>

lemma no_tie_sentences:
  assumes "ds \<noteq> []" and "length ds < 2 ^ 32"
    and "noexcept_wins (map pair_of ds) + implicit_wins (map pair_of ds) = length ds"
  shows "map sentences (summaries (test_result_dtor (record_trials ds))) =
     [if noexcept_wins (map pair_of ds) = length ds then [Noexcept_always_faster]
      else if implicit_wins (map pair_of ds) = length ds then [Implicit_always_faster]
      else [Neither_always_faster]]"
proof -
  let ?n = "noexcept_wins (map pair_of ds)" and ?i = "implicit_wins (map pair_of ds)"
  have n: "?n < 2 ^ 32" and i: "?i < 2 ^ 32" using assms by linarith+
  have pos: "0 < length ds" using assms(1) by simp
  have cn: "m_number_of_times_noexcept_is_faster (record_trials ds) = 0 \<longleftrightarrow> ?n = 0"
    using record_trials_counters [of ds] word_of_nat_eq_0_iff [OF n] by simp
  have ci: "m_number_of_times_implicit_is_faster (record_trials ds) = 0 \<longleftrightarrow> ?i = 0"
    using record_trials_counters [of ds] word_of_nat_eq_0_iff [OF i] by simp
  have "m_number_of_times_noexcept_is_faster (record_trials ds) \<noteq> 0
        \<or> m_number_of_times_implicit_is_faster (record_trials ds) \<noteq> 0"
    using cn ci assms(3) pos by linarith
  from dtor_sentences [OF this] show ?thesis
    using cn ci assms(3) pos by auto
qed

text \<open>
  Claim C2, as the code has it. \<^verbatim>\<open>print_conclusion\<close> produces one of three verdicts: the
  no-throw variant is declared faster, with the ratio of the implicit sum to the no-throw
  sum, if and only if the ``no-throw faster'' counter equals \<open>max_number_of_times = 4\<close>;
  otherwise the implicit variant, with the inverse ratio, if and only if its counter
  equals 4; otherwise the verdict is ``unclear''. After the 4 trials that a driver loop
  records, a counter equals 4 exactly when its variant won every trial. The destructor of
  \<^verbatim>\<open>test_result<N>\<close> prints both ratios in every case and decides by the counter of the
  other variant: when the counters are not both 0 it prints exactly one sentence, ``noexcept
  always faster'' if and only if the ``implicit faster'' counter is 0, else ``implicit
  always faster'' if and only if the ``no-throw faster'' counter is 0, else ``neither''.
  For a sequence of at least one and fewer than \<open>2 ^ 32\<close> trials without a tie this is
  the sentence for the no-throw variant if and only if it won as many trials as were run,
  and likewise for the implicit variant.
\<close>

theorem verdict_derivation:
  "print_conclusion r =
     (if number_of_times_noexcept_is_faster r = 4
      then Noexcept_seems_faster
             (divide_by_positive (sum_of_durations_implicit r) (sum_of_durations_noexcept r))
      else if number_of_times_implicit_is_faster r = 4
      then Implicit_seems_faster
             (divide_by_positive (sum_of_durations_noexcept r) (sum_of_durations_implicit r))
      else Seems_unclear) \<and>
   (length ts = 4 \<longrightarrow>
      (number_of_times_noexcept_is_faster (foldl update_test_result test_result_init ts) = 4
         \<longleftrightarrow> noexcept_wins ts = length ts) \<and>
      (number_of_times_implicit_is_faster (foldl update_test_result test_result_init ts) = 4
         \<longleftrightarrow> implicit_wins ts = length ts)) \<and>
   map ratio_implicit_noexcept (summaries (test_result_dtor c)) =
     [divide_by_positive (m_sum_of_durations_implicit c) (m_sum_of_durations_noexcept c)] \<and>
   map ratio_noexcept_implicit (summaries (test_result_dtor c)) =
     [divide_by_positive (m_sum_of_durations_noexcept c) (m_sum_of_durations_implicit c)] \<and>
   (m_number_of_times_noexcept_is_faster c \<noteq> 0 \<or> m_number_of_times_implicit_is_faster c \<noteq> 0
      \<longrightarrow>
      map sentences (summaries (test_result_dtor c)) =
        [if m_number_of_times_implicit_is_faster c = 0 then [Noexcept_always_faster]
         else if m_number_of_times_noexcept_is_faster c = 0 then [Implicit_always_faster]
         else [Neither_always_faster]]) \<and>
   (ds \<noteq> [] \<and> length ds < 2 ^ 32 \<and>
    noexcept_wins (map pair_of ds) + implicit_wins (map pair_of ds) = length ds \<longrightarrow>
      map sentences (summaries (test_result_dtor (record_trials ds))) =
        [if noexcept_wins (map pair_of ds) = length ds then [Noexcept_always_faster]
         else if implicit_wins (map pair_of ds) = length ds then [Implicit_always_faster]
         else [Neither_always_faster]])"
  using print_conclusion_cases [of r] four_trials_counters [of ts] dtor_ratios [of c]
    dtor_sentences [of c] no_tie_sentences [of ds]
  by blast

text \<open>
  The inputs of the witness: four trials that the no-throw variant wins, for the struct,
  and the three trials of the scenario of the specification, for the class.
\<close>

theorem verdict_derivation_witness:
  "length [(Finite False 5, Finite False 7), (Finite False 4, Finite False 6),
           (Finite False 3, Finite False 9), (Finite False 2, Finite False 4)] = 4 \<and>
   number_of_times_noexcept_is_faster
     (foldl update_test_result test_result_init
        [(Finite False 5, Finite False 7), (Finite False 4, Finite False 6),
         (Finite False 3, Finite False 9), (Finite False 2, Finite False 4)]) = 4 \<and>
   m_number_of_times_noexcept_is_faster
     (record_trials
        [\<lparr>duration_noexcept = Finite False 5, duration_implicit = Finite False 7\<rparr>,
         \<lparr>duration_noexcept = Finite False 4, duration_implicit = Finite False 6\<rparr>,
         \<lparr>duration_noexcept = Finite False 3, duration_implicit = Finite False 9\<rparr>]) \<noteq> 0 \<and>
   length
     [\<lparr>duration_noexcept = Finite False 5, duration_implicit = Finite False 7\<rparr>,
      \<lparr>duration_noexcept = Finite False 4, duration_implicit = Finite False 6\<rparr>,
      \<lparr>duration_noexcept = Finite False 3, duration_implicit = Finite False 9\<rparr>] < 2 ^ 32 \<and>
   map sentences
     (summaries (test_result_dtor
        (record_trials
           [\<lparr>duration_noexcept = Finite False 5, duration_implicit = Finite False 7\<rparr>,
            \<lparr>duration_noexcept = Finite False 4, duration_implicit = Finite False 6\<rparr>,
            \<lparr>duration_noexcept = Finite False 3, duration_implicit = Finite False 9\<rparr>]))) =
     [[Noexcept_always_faster]]"
proof -
  let ?ts = "[(Finite False 5, Finite False 7), (Finite False 4, Finite False 6),
              (Finite False 3, Finite False 9), (Finite False 2, Finite False 4)]"
  let ?ds = "[\<lparr>duration_noexcept = Finite False 5, duration_implicit = Finite False 7\<rparr>,
              \<lparr>duration_noexcept = Finite False 4, duration_implicit = Finite False 6\<rparr>,
              \<lparr>duration_noexcept = Finite False 3, duration_implicit = Finite False 9\<rparr>]"
  have len: "length ?ts = 4" by simp
  have wn: "noexcept_wins ?ts = length ?ts"
    by (simp add: noexcept_wins_def valof_def)
  have wd: "noexcept_wins (map pair_of ?ds) = 3" "implicit_wins (map pair_of ?ds) = 0"
    by (simp_all add: noexcept_wins_def implicit_wins_def pair_of_def valof_def)
  have c: "m_number_of_times_noexcept_is_faster (record_trials ?ds) \<noteq> 0"
    using record_trials_counters [of ?ds] wd by simp
  have hyp: "?ds \<noteq> [] \<and> length ?ds < 2 ^ 32 \<and>
      noexcept_wins (map pair_of ?ds) + implicit_wins (map pair_of ?ds) = length ?ds"
    using wd by simp
  note v = verdict_derivation [of _ ?ts "record_trials ?ds" ?ds]
  have "number_of_times_noexcept_is_faster (foldl update_test_result test_result_init ?ts) = 4"
    using v len wn by blast
  moreover have "map sentences (summaries (test_result_dtor (record_trials ?ds))) =
      [if noexcept_wins (map pair_of ?ds) = length ?ds then [Noexcept_always_faster]
       else if implicit_wins (map pair_of ?ds) = length ?ds then [Implicit_always_faster]
       else [Neither_always_faster]]"
    using v hyp by blast
  then have "map sentences (summaries (test_result_dtor (record_trials ?ds))) =
      [[Noexcept_always_faster]]"
    using wd by simp
  ultimately show ?thesis using len c by simp
qed

text \<open>
  The claim as the specification states it fails for the class. After a trial that the
  no-throw variant wins and a tie, the destructor declares the no-throw variant always
  faster, although its counter, 1, is not the number of trials, 2.
\<close>

theorem verdict_with_tie_counterexample:
  "map sentences
     (summaries (test_result_dtor
        (record_trials
           [\<lparr>duration_noexcept = Finite False 1, duration_implicit = Finite False 2\<rparr>,
            \<lparr>duration_noexcept = Finite False 1, duration_implicit = Finite False 1\<rparr>]))) =
     [[Noexcept_always_faster]] \<and>
   m_number_of_times_noexcept_is_faster
     (record_trials
        [\<lparr>duration_noexcept = Finite False 1, duration_implicit = Finite False 2\<rparr>,
         \<lparr>duration_noexcept = Finite False 1, duration_implicit = Finite False 1\<rparr>]) = 1 \<and>
   length
     [\<lparr>duration_noexcept = Finite False 1, duration_implicit = Finite False 2\<rparr>,
      \<lparr>duration_noexcept = Finite False 1, duration_implicit = Finite False 1\<rparr>] = 2"
  by (simp add: run_eval fp_eval)

section \<open>The scenario of three trials\<close>

lemma three_trials_struct:
  "foldl update_test_result test_result_init
     [(Finite False 5, Finite False 7), (Finite False 4, Finite False 6),
      (Finite False 3, Finite False 9)] =
   \<lparr>number_of_times_noexcept_is_faster = 3,
     number_of_times_implicit_is_faster = 0,
     sum_of_durations_noexcept = Finite False 12,
     sum_of_durations_implicit = Finite False 22\<rparr>"
  by (simp add: run_eval fp_eval)

lemma four_trials_struct:
  "foldl update_test_result test_result_init
     [(Finite False 5, Finite False 7), (Finite False 4, Finite False 6),
      (Finite False 3, Finite False 9), (Finite False 2, Finite False 4)] =
   \<lparr>number_of_times_noexcept_is_faster = 4,
     number_of_times_implicit_is_faster = 0,
     sum_of_durations_noexcept = Finite False 14,
     sum_of_durations_implicit = Finite False 26\<rparr>"
  by (simp add: run_eval fp_eval)

lemma three_trials_class:
  "record_trials
     [\<lparr>duration_noexcept = Finite False 5, duration_implicit = Finite False 7\<rparr>,
      \<lparr>duration_noexcept = Finite False 4, duration_implicit = Finite False 6\<rparr>,
      \<lparr>duration_noexcept = Finite False 3, duration_implicit = Finite False 9\<rparr>] =
   \<lparr>m_number_of_times_noexcept_is_faster = 3,
     m_number_of_times_implicit_is_faster = 0,
     m_sum_of_durations_noexcept = Finite False 12,
     m_sum_of_durations_implicit = Finite False 22,
     m_shortest_duration_noexcept = Finite False 3,
     m_shortest_duration_implicit = Finite False 6,
     m_test_case_name = []\<rparr>"
  by (simp add: run_eval fp_eval)

text \<open>
  Claim C6, as the code has it. The trials \<open>(5.0, 7.0)\<close>, \<open>(4.0, 6.0)\<close>, \<open>(3.0, 9.0)\<close> are
  recorded by a fresh accumulator. In the class the no-throw variant has won all 3
  trials (the counters are 3 and 0), the destructor prints the one sentence ``noexcept
  always faster'', and the ratio of the sums implicit/noexcept is \<open>22 / 12\<close> rounded to a
  double, within \<open>2 ^ - 53\<close> of \<open>11 / 6\<close>. In the struct of
  \<^verbatim>\<open>noexcept_benchmark_main.cpp\<close> the counters and the sums are the same, but
  \<^verbatim>\<open>print_conclusion\<close> compares the counter with \<open>max_number_of_times = 4\<close>: after these 3 trials
  the verdict is ``unclear'', and after a fourth trial won by the no-throw variant,
  \<open>(2.0, 4.0)\<close>, it is ``noexcept faster'' with the ratio \<open>26 / 14\<close> rounded to a double.
\<close>

theorem three_trials_scenario:
  "m_number_of_times_noexcept_is_faster
     (record_trials
        [\<lparr>duration_noexcept = Finite False 5, duration_implicit = Finite False 7\<rparr>,
         \<lparr>duration_noexcept = Finite False 4, duration_implicit = Finite False 6\<rparr>,
         \<lparr>duration_noexcept = Finite False 3, duration_implicit = Finite False 9\<rparr>]) = 3 \<and>
   m_number_of_times_implicit_is_faster
     (record_trials
        [\<lparr>duration_noexcept = Finite False 5, duration_implicit = Finite False 7\<rparr>,
         \<lparr>duration_noexcept = Finite False 4, duration_implicit = Finite False 6\<rparr>,
         \<lparr>duration_noexcept = Finite False 3, duration_implicit = Finite False 9\<rparr>]) = 0 \<and>
   test_result_dtor
     (record_trials
        [\<lparr>duration_noexcept = Finite False 5, duration_implicit = Finite False 7\<rparr>,
         \<lparr>duration_noexcept = Finite False 4, duration_implicit = Finite False 6\<rparr>,
         \<lparr>duration_noexcept = Finite False 3, duration_implicit = Finite False 9\<rparr>]) =
     [Summary
        \<lparr>shortest_noexcept = Finite False 3,
         shortest_implicit = Finite False 6,
         sum_noexcept = Finite False 12,
         sum_implicit = Finite False 22,
         ratio_noexcept_implicit = Finite False (1228254443828317 / 2251799813685248),
         ratio_implicit_noexcept = Finite False (8256599316845909 / 4503599627370496),
         sentences = [Noexcept_always_faster]\<rparr>] \<and>
   \<bar>8256599316845909 / 4503599627370496 - 22 / 12\<bar> < (1 / 2 ^ 53 :: rat) \<and>
   foldl update_test_result test_result_init
     [(Finite False 5, Finite False 7), (Finite False 4, Finite False 6),
      (Finite False 3, Finite False 9)] =
     \<lparr>number_of_times_noexcept_is_faster = 3,
       number_of_times_implicit_is_faster = 0,
       sum_of_durations_noexcept = Finite False 12,
       sum_of_durations_implicit = Finite False 22\<rparr> \<and>
   print_conclusion
     (foldl update_test_result test_result_init
        [(Finite False 5, Finite False 7), (Finite False 4, Finite False 6),
         (Finite False 3, Finite False 9)]) = Seems_unclear \<and>
   print_conclusion
     (foldl update_test_result test_result_init
        [(Finite False 5, Finite False 7), (Finite False 4, Finite False 6),
         (Finite False 3, Finite False 9), (Finite False 2, Finite False 4)]) =
     Noexcept_seems_faster (Finite False (4181913939701175 / 2251799813685248))"
proof -
  have "test_result_dtor
     \<lparr>m_number_of_times_noexcept_is_faster = 3,
       m_number_of_times_implicit_is_faster = 0,
       m_sum_of_durations_noexcept = Finite False 12,
       m_sum_of_durations_implicit = Finite False 22,
       m_shortest_duration_noexcept = Finite False 3,
       m_shortest_duration_implicit = Finite False 6,
       m_test_case_name = []\<rparr> =
     [Summary
        \<lparr>shortest_noexcept = Finite False 3,
         shortest_implicit = Finite False 6,
         sum_noexcept = Finite False 12,
         sum_implicit = Finite False 22,
         ratio_noexcept_implicit = Finite False (1228254443828317 / 2251799813685248),
         ratio_implicit_noexcept = Finite False (8256599316845909 / 4503599627370496),
         sentences = [Noexcept_always_faster]\<rparr>]"
    by (simp add: test_result_dtor_def fp_eval)
  moreover have "\<bar>8256599316845909 / 4503599627370496 - 22 / 12\<bar> < (1 / 2 ^ 53 :: rat)"
    by simp
  moreover have "print_conclusion
     \<lparr>number_of_times_noexcept_is_faster = 3,
       number_of_times_implicit_is_faster = 0,
       sum_of_durations_noexcept = Finite False 12,
       sum_of_durations_implicit = Finite False 22\<rparr> = Seems_unclear"
    by (simp add: print_conclusion_cases)
  moreover have "print_conclusion
     \<lparr>number_of_times_noexcept_is_faster = 4,
       number_of_times_implicit_is_faster = 0,
       sum_of_durations_noexcept = Finite False 14,
       sum_of_durations_implicit = Finite False 26\<rparr> =
     Noexcept_seems_faster (Finite False (4181913939701175 / 2251799813685248))"
    by (simp add: print_conclusion_cases fp_eval)
  ultimately show ?thesis
    unfolding three_trials_class three_trials_struct four_trials_struct by simp
qed

text \<open>
  The claim as the specification states it fails for the struct: after the three trials
  \<^verbatim>\<open>print_conclusion\<close> does not declare the no-throw variant faster.
\<close>

theorem three_trials_unclear_counterexample:
  "print_conclusion
     (foldl update_test_result test_result_init
        [(Finite False 5, Finite False 7), (Finite False 4, Finite False 6),
         (Finite False 3, Finite False 9)]) = Seems_unclear"
  unfolding three_trials_struct by (simp add: print_conclusion_cases)

section \<open>Properties of the timing primitive\<close>

lemma inner_loop_funpow: "inner_loop k func t = ((\<lambda>t. t + func t) ^^ k) t"
proof (induction k arbitrary: t)
  case 0
  show ?case by simp
next
  case (Suc k)
  have "((\<lambda>t. t + func t) ^^ Suc k) t = ((\<lambda>t. t + func t) ^^ k) (t + func t)"
    by (simp only: funpow_Suc_right o_apply)
  then show ?case using Suc by simp
qed

lemma funpow_constant_cost: "((\<lambda>t. t + c) ^^ k) t = t + k * (c :: nat)"
  by (induction k) simp_all

text \<open>Three samples: the first is the smallest so far, two more follow.\<close>

lemma stopwatch_measure_three:
  "stopwatch_measure b n func 3 t0 =
     (let t1 = ((\<lambda>t. t + func t) ^^ n) t0;
          t2 = ((\<lambda>t. t + func t) ^^ n) t1;
          t3 = ((\<lambda>t. t + func t) ^^ n) t2
      in (min (min (t1 - t0) (t2 - t1)) (t3 - t2), t3))"
proof -
  have "stopwatch_measure b n func (Suc (Suc (Suc 0))) t0 =
     (let t1 = ((\<lambda>t. t + func t) ^^ n) t0;
          t2 = ((\<lambda>t. t + func t) ^^ n) t1;
          t3 = ((\<lambda>t. t + func t) ^^ n) t2
      in (min (min (t1 - t0) (t2 - t1)) (t3 - t2), t3))"
    by (simp add: stopwatch_measure_def inner_loop_funpow Let_def)
  then show ?thesis by (simp only: numeral_3_eq_3)
qed

lemma double_of_nat_loopsize: "double_of_nat loopsize = Finite False 1000"
  by (simp add: double_of_nat_def loopsize_def fp_eval)

lemma double_of_nat_36000: "double_of_nat 36000 = Finite False 36000"
  by (simp add: double_of_nat_def fp_eval)

lemma nanoseconds_of_36000_cycles:
  "fp_div
     (fp_mul (fp_div (Finite False 36000) (Finite False 3612059050))
        (Finite False 1000000000))
     (Finite False 1000) = Finite False (5610705152554809 / 562949953421312)"
  by (simp add: fp_eval)

text \<open>
  Claim C5. With the stopwatch of the specification, \<^verbatim>\<open>profile_func_call\<close> takes
  \<open>minimum_of = 3\<close> samples, one after the other, each of them \<open>loopsize = 1000\<close>
  invocations of the work, keeps the smallest of the three elapsed cycle counts and
  returns it divided by \<open>cpu_frequency\<close>, multiplied by \<open>1e9\<close> and divided by the loop
  size, each operation rounded to a double: the estimated nanoseconds of one invocation.
  The work is invoked 3000 times in all. For a work of 36 cycles at each invocation the
  result, at 3612059050 cycles per second, is \<open>9.9666...\<close> nanoseconds.
\<close>

theorem profile_func_call_smallest_sample:
  "loopsize = 1000 \<and> minimum_of = 3 \<and>
   profile_func_call stopwatch_measure func t0 =
     (let step = (\<lambda>t. t + func t);
          t1 = (step ^^ 1000) t0;
          t2 = (step ^^ 1000) t1;
          t3 = (step ^^ 1000) t2;
          smallest = min (min (t1 - t0) (t2 - t1)) (t3 - t2)
      in (fp_div
            (fp_mul (fp_div (double_of_nat smallest) (Finite False 3612059050))
               (Finite False 1000000000))
            (Finite False 1000),
          t3)) \<and>
   snd (profile_func_call stopwatch_measure func t0) = ((\<lambda>t. t + func t) ^^ 3000) t0 \<and>
   profile_func_call stopwatch_measure (\<lambda>t. 36) 0 =
     (Finite False (5610705152554809 / 562949953421312), 108000)"
proof -
  let ?step = "\<lambda>t. t + func t"
  have p: "profile_func_call stopwatch_measure func t0 =
     (let t1 = ((\<lambda>t. t + func t) ^^ 1000) t0;
          t2 = ((\<lambda>t. t + func t) ^^ 1000) t1;
          t3 = ((\<lambda>t. t + func t) ^^ 1000) t2;
          smallest = min (min (t1 - t0) (t2 - t1)) (t3 - t2)
      in (fp_div
            (fp_mul (fp_div (double_of_nat smallest) (Finite False 3612059050))
               (Finite False 1000000000))
            (Finite False 1000),
          t3))" for func t0
    unfolding profile_func_call_def double_of_nat_loopsize cpu_frequency_def
    unfolding loopsize_def minimum_of_def stopwatch_measure_three
    by (simp add: Let_def)
  have "(?step ^^ 1000) ((?step ^^ 1000) ((?step ^^ 1000) t0)) = (?step ^^ (1000 + 1000 + 1000)) t0"
    by (simp only: funpow_add o_apply)
  then have q: "snd (profile_func_call stopwatch_measure func t0) = (?step ^^ 3000) t0"
    by (simp add: p Let_def)
  have e: "profile_func_call stopwatch_measure (\<lambda>t. 36) 0 =
     (Finite False (5610705152554809 / 562949953421312), 108000)"
    unfolding p funpow_constant_cost Let_def
    by (simp add: double_of_nat_36000 nanoseconds_of_36000_cycles
          del: fp_div.simps fp_mul.simps)
  show ?thesis
    using p [of func t0] q e by (simp add: loopsize_def minimum_of_def Let_def)
qed

end
